theory Spec2Isabelle
  imports Complex_Main "HOL-Library.AList"
begin

section \<open>Satellite damage analysis (app.py)\<close>

text \<open>
  The program is a single Python module: three analysis functions
  (\<open>analyze_fire_damage\<close>, \<open>analyze_flood_damage\<close>,
  \<open>analyze_landslide_damage\<close>), the imagery selection and dispatch
  \<open>get_satellite_imagery\<close>, and the HTTP handler \<open>analyze_damage_endpoint\<close>.

  The Earth Engine client library is not part of the program. Its objects are lazy: a
  call such as \<open>image.normalizedDifference(['B8', 'B4']).rename('NDVI')\<close> builds
  an expression, and only \<open>getInfo\<close>, \<open>reduceRegion(...).get(...)\<close> and
  \<open>getThumbUrl\<close> ask the server for a value. The model keeps that split: raster
  expressions are a datatype built by the program, and what the server answers is a
  parameter (the record \<open>provider\<close>), about which the theorems assume nothing unless
  they say so. Image collections are lists of scene records, with the filters, the sort
  and \<open>first\<close> of the provider interface written out on lists.

  Python floats are modelled as real numbers: comparisons with the literals of the
  program are exact on floats, \<open>round(x, 2)\<close> is rounding to the nearest hundredth
  with ties to even, and division by zero raises. Every round trip to the provider is
  taken to answer; \<open>print\<close> calls are left out.
\<close>

subsection \<open>Python values\<close>

datatype error =
    Exception string        \<comment> \<open>\<open>raise Exception(msg)\<close>\<close>
  | ZeroDivisionError       \<comment> \<open>float division by zero\<close>
  | TypeError               \<comment> \<open>\<open>float(None)\<close>\<close>

definition str_error :: "error \<Rightarrow> string" where
  "str_error e = (case e of
      Exception msg \<Rightarrow> msg
    | ZeroDivisionError \<Rightarrow> ''float division by zero''
    | TypeError \<Rightarrow> ''float() argument must be a string or a real number, not 'NoneType'' @ [CHR 0x27])"

definition round_half_even :: "real \<Rightarrow> int" where
  "round_half_even x = (let f = \<lfloor>x\<rfloor>; d = x - of_int f in
     if d < 1 / 2 then f else if 1 / 2 < d then f + 1 else if even f then f else f + 1)"

text \<open>\<open>round(x, n)\<close> of Python on a float.\<close>

definition py_round :: "real \<Rightarrow> nat \<Rightarrow> real" where
  "py_round x n = of_int (round_half_even (x * 10 ^ n)) / 10 ^ n"

datatype jval = JStr string | JNum real

text \<open>A Python dict with string keys, in insertion order.\<close>

type_synonym pydict = "(string \<times> jval) list"

subsection \<open>Earth Engine objects\<close>

datatype geometry =
    Point real real          \<comment> \<open>\<open>ee.Geometry.Point(lon, lat)\<close>\<close>
  | Buffer geometry real     \<comment> \<open>\<open>g.buffer(distance)\<close>\<close>

record scene =
  scene_id :: nat
  time_start :: int                     \<comment> \<open>property \<open>system:time_start\<close>\<close>
  cloudy_pixel_percentage :: real       \<comment> \<open>property \<open>CLOUDY_PIXEL_PERCENTAGE\<close>\<close>

datatype image =
    Scene scene
  | Clip image geometry
  | NormalizedDifference image string string
  | Rename image string
  | Subtract image image
  | Gt image real
  | Lt image real
  | And image image
  | SelfMask image
  | Multiply image image
  | PixelArea

record vis_params =
  vis_min :: real
  vis_max :: real
  vis_palette :: "string list"
  vis_bands :: "string list"

text \<open>
  What the outside world answers. \<open>reduceRegion_sum_get p img g scale maxPixels band\<close>
  is \<open>img.reduceRegion(reducer=ee.Reducer.sum(), geometry=g, scale=scale,
  maxPixels=maxPixels).get(band)\<close>, with \<open>None\<close> for Python's \<open>None\<close> and
  \<open>Some m\<close> for an object whose \<open>getInfo()\<close> is \<open>m\<close>. \<open>str_float\<close> is how
  Python prints a float inside an f-string.
\<close>

record provider =
  ImageCollection :: "string \<Rightarrow> scene list"
  intersects_bounds :: "scene \<Rightarrow> geometry \<Rightarrow> bool"
  ee_Date :: "string \<Rightarrow> int"
  advance :: "int \<Rightarrow> int \<Rightarrow> string \<Rightarrow> int"
  reduceRegion_sum_get :: "image \<Rightarrow> geometry \<Rightarrow> real \<Rightarrow> real \<Rightarrow> string \<Rightarrow> real option"
  geometry_area :: "geometry \<Rightarrow> real"
  getThumbUrl :: "image \<Rightarrow> vis_params \<Rightarrow> string"
  str_float :: "real \<Rightarrow> string"

text \<open>Collection operations of the provider, on lists of scenes.\<close>

definition filterBounds :: "provider \<Rightarrow> geometry \<Rightarrow> scene list \<Rightarrow> scene list" where
  "filterBounds ee g c = filter (\<lambda>s. intersects_bounds ee s g) c"

definition filter_lt_cloudy :: "real \<Rightarrow> scene list \<Rightarrow> scene list" where
  "filter_lt_cloudy v c = filter (\<lambda>s. cloudy_pixel_percentage s < v) c"

text \<open>\<open>filterDate(start, end)\<close>: the start is inclusive, the end exclusive.\<close>

definition filterDate :: "int \<Rightarrow> int \<Rightarrow> scene list \<Rightarrow> scene list" where
  "filterDate start end c = filter (\<lambda>s. start \<le> time_start s \<and> time_start s < end) c"

text \<open>\<open>sort('system:time_start', ascending)\<close>.\<close>

definition sort_time_start :: "bool \<Rightarrow> scene list \<Rightarrow> scene list" where
  "sort_time_start ascending c =
     (if ascending then sort_key time_start c else sort_key (\<lambda>s. - time_start s) c)"

subsection \<open>Fire analysis\<close>

definition calculate_ndvi :: "image \<Rightarrow> image" where
  "calculate_ndvi img = Rename (NormalizedDifference img ''B8'' ''B4'') ''NDVI''"

definition dndvi :: "image \<Rightarrow> image \<Rightarrow> image" where
  "dndvi image_before image_after =
     (let ndvi_before = calculate_ndvi image_before;
          ndvi_after = calculate_ndvi image_after
      in Rename (Subtract ndvi_before ndvi_after) ''dNDVI'')"

definition burned_area :: "image \<Rightarrow> image \<Rightarrow> image" where
  "burned_area image_before image_after =
     (let burn_threshold = 6 / 10
      in SelfMask (Rename (Gt (dndvi image_before image_after) burn_threshold) ''burned_area''))"

definition burned_meters :: "provider \<Rightarrow> image \<Rightarrow> image \<Rightarrow> geometry \<Rightarrow> real option" where
  "burned_meters ee image_before image_after aoi =
     (let pixel_area = PixelArea
      in reduceRegion_sum_get ee (Multiply (burned_area image_before image_after) pixel_area)
           aoi 30 (10 ^ 9) ''burned_area'')"

definition analyze_fire_damage ::
  "provider \<Rightarrow> image \<Rightarrow> image \<Rightarrow> geometry \<Rightarrow> error + (real \<times> image)" where
  "analyze_fire_damage ee image_before image_after aoi =
     (let total_meters = geometry_area ee aoi in
      case burned_meters ee image_before image_after aoi of
        None \<Rightarrow> Inr (0, dndvi image_before image_after)
      | Some m \<Rightarrow>
          if total_meters = 0 then Inl ZeroDivisionError
          else (let damage_percent = (m / total_meters) * 100
                in Inr (py_round damage_percent 2, dndvi image_before image_after)))"

subsection \<open>Flood analysis\<close>

definition ndwi_before :: "image \<Rightarrow> image" where
  "ndwi_before image_before = Rename (NormalizedDifference image_before ''B3'' ''B8'') ''NDWI_Before''"

definition ndwi_after :: "image \<Rightarrow> image" where
  "ndwi_after image_after = Rename (NormalizedDifference image_after ''B3'' ''B8'') ''NDWI_After''"

definition flooded_area :: "image \<Rightarrow> image \<Rightarrow> image" where
  "flooded_area image_before image_after =
     (let water_threshold = 3 / 10;
          not_water_before = Lt (ndwi_before image_before) water_threshold;
          is_water_after = Gt (ndwi_after image_after) water_threshold
      in SelfMask (Rename (And not_water_before is_water_after) ''flooded_area''))"

definition flooded_meters :: "provider \<Rightarrow> image \<Rightarrow> image \<Rightarrow> geometry \<Rightarrow> real option" where
  "flooded_meters ee image_before image_after aoi =
     (let pixel_area = PixelArea
      in reduceRegion_sum_get ee (Multiply (flooded_area image_before image_after) pixel_area)
           aoi 30 (10 ^ 9) ''flooded_area'')"

definition analyze_flood_damage ::
  "provider \<Rightarrow> image \<Rightarrow> image \<Rightarrow> geometry \<Rightarrow> error + (real \<times> image)" where
  "analyze_flood_damage ee image_before image_after aoi =
     (let total_meters = geometry_area ee aoi in
      case flooded_meters ee image_before image_after aoi of
        None \<Rightarrow> Inr (0, ndwi_after image_after)
      | Some m \<Rightarrow>
          if total_meters = 0 then Inl ZeroDivisionError
          else (let damage_percent = (m / total_meters) * 100
                in Inr (py_round damage_percent 2, ndwi_after image_after)))"

subsection \<open>Earthquake analysis (landslide proxy)\<close>

definition slide_area :: "image \<Rightarrow> image \<Rightarrow> image" where
  "slide_area image_before image_after =
     (let slide_threshold = 4 / 10
      in SelfMask (Rename (Gt (dndvi image_before image_after) slide_threshold) ''slide_area''))"

definition slide_meters :: "provider \<Rightarrow> image \<Rightarrow> image \<Rightarrow> geometry \<Rightarrow> real option" where
  "slide_meters ee image_before image_after aoi =
     (let pixel_area = PixelArea
      in reduceRegion_sum_get ee (Multiply (slide_area image_before image_after) pixel_area)
           aoi 30 (10 ^ 9) ''slide_area'')"

definition analyze_landslide_damage ::
  "provider \<Rightarrow> image \<Rightarrow> image \<Rightarrow> geometry \<Rightarrow> error + (real \<times> image)" where
  "analyze_landslide_damage ee image_before image_after aoi =
     (let total_meters = geometry_area ee aoi in
      case slide_meters ee image_before image_after aoi of
        None \<Rightarrow> Inr (0, dndvi image_before image_after)
      | Some m \<Rightarrow>
          if total_meters = 0 then Inl ZeroDivisionError
          else (let damage_percent = (m / total_meters) * 100
                in Inr (py_round damage_percent 2, dndvi image_before image_after)))"

subsection \<open>Imagery selection and dispatch\<close>

definition poi :: "real \<Rightarrow> real \<Rightarrow> geometry" where
  "poi lat lon = Point lon lat"

definition aoi :: "real \<Rightarrow> real \<Rightarrow> geometry" where
  "aoi lat lon = Buffer (poi lat lon) 1000"

definition date_disaster_start :: "provider \<Rightarrow> string \<Rightarrow> int" where
  "date_disaster_start ee disaster_date_str = ee_Date ee disaster_date_str"

definition date_before_start :: "provider \<Rightarrow> string \<Rightarrow> int" where
  "date_before_start ee disaster_date_str =
     advance ee (date_disaster_start ee disaster_date_str) (- 3) ''month''"

definition date_after_end :: "provider \<Rightarrow> string \<Rightarrow> int" where
  "date_after_end ee disaster_date_str =
     advance ee (date_disaster_start ee disaster_date_str) 3 ''month''"

definition collection :: "provider \<Rightarrow> real \<Rightarrow> real \<Rightarrow> scene list" where
  "collection ee lat lon =
     filter_lt_cloudy 15
       (filterBounds ee (aoi lat lon) (ImageCollection ee ''COPERNICUS/S2_SR_HARMONIZED''))"

definition collection_before :: "provider \<Rightarrow> real \<Rightarrow> real \<Rightarrow> string \<Rightarrow> scene list" where
  "collection_before ee lat lon disaster_date_str =
     filterDate (date_before_start ee disaster_date_str) (date_disaster_start ee disaster_date_str)
       (collection ee lat lon)"

definition collection_after :: "provider \<Rightarrow> real \<Rightarrow> real \<Rightarrow> string \<Rightarrow> scene list" where
  "collection_after ee lat lon disaster_date_str =
     filterDate (date_disaster_start ee disaster_date_str) (date_after_end ee disaster_date_str)
       (collection ee lat lon)"

text \<open>
  \<open>first()\<close> is only reached when both collections have been found non-empty, so
  \<open>hd\<close> is never applied to the empty list by \<open>get_satellite_imagery\<close>.
\<close>

definition image_before_obj :: "provider \<Rightarrow> real \<Rightarrow> real \<Rightarrow> string \<Rightarrow> scene" where
  "image_before_obj ee lat lon disaster_date_str =
     hd (sort_time_start False (collection_before ee lat lon disaster_date_str))"

definition image_after_obj :: "provider \<Rightarrow> real \<Rightarrow> real \<Rightarrow> string \<Rightarrow> scene" where
  "image_after_obj ee lat lon disaster_date_str =
     hd (sort_time_start True (collection_after ee lat lon disaster_date_str))"

definition image_before :: "provider \<Rightarrow> real \<Rightarrow> real \<Rightarrow> string \<Rightarrow> image" where
  "image_before ee lat lon disaster_date_str =
     Clip (Scene (image_before_obj ee lat lon disaster_date_str)) (aoi lat lon)"

definition image_after :: "provider \<Rightarrow> real \<Rightarrow> real \<Rightarrow> string \<Rightarrow> image" where
  "image_after ee lat lon disaster_date_str =
     Clip (Scene (image_after_obj ee lat lon disaster_date_str)) (aoi lat lon)"

definition no_images_message :: string where
  "no_images_message = ''No cloud-free images (<15%) were found within 3 months before or after the specified date and location. Please try a different date range or area.''"

definition unsupported_message :: "string \<Rightarrow> string" where
  "unsupported_message disaster_type =
     ''Disaster type '' @ [CHR 0x27] @ disaster_type @ [CHR 0x27] @
     '' is not supported. Use 'fire', 'flood', 'hurricane', or 'earthquake'.''"

definition vis_fire :: vis_params where
  "vis_fire = \<lparr>vis_min = - 5 / 10, vis_max = 1,
     vis_palette = [''blue'', ''white'', ''green'', ''yellow'', ''red''], vis_bands = []\<rparr>"

definition vis_flood :: vis_params where
  "vis_flood = \<lparr>vis_min = - 5 / 10, vis_max = 1,
     vis_palette = [''orange'', ''white'', ''blue''], vis_bands = []\<rparr>"

definition vis_earthquake :: vis_params where
  "vis_earthquake = \<lparr>vis_min = - 2 / 10, vis_max = 8 / 10,
     vis_palette = [''blue'', ''white'', ''green'', ''brown'', ''red''], vis_bands = []\<rparr>"

definition vis_params_rgb :: vis_params where
  "vis_params_rgb = \<lparr>vis_min = 0, vis_max = 3000, vis_palette = [],
     vis_bands = [''B4'', ''B3'', ''B2'']\<rparr>"

text \<open>
  The \<open>if\<close>/\<open>elif\<close> chain on \<open>disaster_type\<close> of \<open>get_satellite_imagery\<close>:
  the damage percentage, the raster to draw and how to draw it, or the exception of the
  last branch.
\<close>

definition analysis_branch ::
  "provider \<Rightarrow> string \<Rightarrow> image \<Rightarrow> image \<Rightarrow> geometry \<Rightarrow> error + (real \<times> image \<times> vis_params)" where
  "analysis_branch ee disaster_type img_before img_after g =
     (if disaster_type = ''fire'' then
        (case analyze_fire_damage ee img_before img_after g of
           Inl e \<Rightarrow> Inl e
         | Inr (damage_percent, analysis_image) \<Rightarrow> Inr (damage_percent, analysis_image, vis_fire))
      else if disaster_type = ''flood'' then
        (case analyze_flood_damage ee img_before img_after g of
           Inl e \<Rightarrow> Inl e
         | Inr (damage_percent, analysis_image) \<Rightarrow> Inr (damage_percent, analysis_image, vis_flood))
      else if disaster_type = ''hurricane'' then
        (case analyze_flood_damage ee img_before img_after g of
           Inl e \<Rightarrow> Inl e
         | Inr (damage_percent, analysis_image) \<Rightarrow> Inr (damage_percent, analysis_image, vis_flood))
      else if disaster_type = ''earthquake'' then
        (case analyze_landslide_damage ee img_before img_after g of
           Inl e \<Rightarrow> Inl e
         | Inr (damage_percent, analysis_image) \<Rightarrow>
             Inr (damage_percent, analysis_image, vis_earthquake))
      else Inl (Exception (unsupported_message disaster_type)))"

text \<open>The result is \<open>(url_before, url_after, url_damage_map, damage_percent)\<close>.\<close>

definition get_satellite_imagery ::
  "provider \<Rightarrow> real \<Rightarrow> real \<Rightarrow> string \<Rightarrow> string \<Rightarrow> error + (string \<times> string \<times> string \<times> real)" where
  "get_satellite_imagery ee lat lon disaster_date_str disaster_type =
     (if length (collection_before ee lat lon disaster_date_str) = 0
         \<or> length (collection_after ee lat lon disaster_date_str) = 0
      then Inl (Exception no_images_message)
      else
        (case analysis_branch ee disaster_type
                (image_before ee lat lon disaster_date_str)
                (image_after ee lat lon disaster_date_str) (aoi lat lon) of
           Inl e \<Rightarrow> Inl e
         | Inr (damage_percent, analysis_image, vis_params_analysis) \<Rightarrow>
             (let url_before = getThumbUrl ee (image_before ee lat lon disaster_date_str) vis_params_rgb;
                  url_after = getThumbUrl ee (image_after ee lat lon disaster_date_str) vis_params_rgb;
                  url_damage_map = getThumbUrl ee analysis_image vis_params_analysis
              in Inr (url_before, url_after, url_damage_map, damage_percent))))"

subsection \<open>The endpoint\<close>

text \<open>
  The JSON body of a request, as \<open>data.get\<close> sees it: \<open>None\<close> for a key that is
  absent or null. The model covers bodies whose \<open>lat\<close> and \<open>lon\<close> are JSON numbers
  and whose \<open>disaster_date\<close> and \<open>disaster_type\<close> are JSON strings.
\<close>

record request =
  lat_field :: "real option"
  lon_field :: "real option"
  disaster_date_field :: "string option"
  disaster_type_field :: "string option"

text \<open>
  The state of the server process: the cache (which holds values) and the dict objects
  created so far, an object's address being its index.
\<close>

record app_state =
  cache :: "string \<rightharpoonup> pydict"
  heap :: "pydict list"

datatype outcome =
    Json pydict nat      \<comment> \<open>\<open>jsonify(body), status\<close>\<close>
  | Raised error         \<comment> \<open>an exception that leaves the handler\<close>

definition truthy_str :: "string option \<Rightarrow> bool" where
  "truthy_str v = (case v of None \<Rightarrow> False | Some s \<Rightarrow> s \<noteq> [])"

text \<open>\<open>all([lat, lon, disaster_date, disaster_type])\<close>.\<close>

definition all_present :: "real \<Rightarrow> real \<Rightarrow> string option \<Rightarrow> string option \<Rightarrow> bool" where
  "all_present lat lon disaster_date disaster_type =
     (lat \<noteq> 0 \<and> lon \<noteq> 0 \<and> truthy_str disaster_date \<and> truthy_str disaster_type)"

definition missing_message :: string where
  "missing_message = ''Faltan 'lat', 'lon', 'disaster_date' o 'disaster_type'' @ [CHR 0x27]"

definition cache_key :: "provider \<Rightarrow> real \<Rightarrow> real \<Rightarrow> string \<Rightarrow> string \<Rightarrow> string" where
  "cache_key ee lat lon disaster_date disaster_type =
     ''analysis_'' @ str_float ee lat @ ''_'' @ str_float ee lon @ ''_'' @ disaster_date
       @ ''_'' @ disaster_type"

text \<open>The severity label computed from \<open>damage_percent\<close>.\<close>

definition status :: "real \<Rightarrow> string" where
  "status damage_percent =
     (if damage_percent > 70 then ''AUTOMATICALLY APPROVED (Severe Damage)''
      else if damage_percent > 30 then ''FLAGGED FOR REVIEW (Considerable Damage)''
      else if damage_percent < 5 then ''No Significant Damage Detected''
      else ''Light Damage Detected'')"

definition response_data ::
  "provider \<Rightarrow> real \<Rightarrow> real \<Rightarrow> string \<Rightarrow> string \<Rightarrow> string \<Rightarrow> string \<Rightarrow> string \<Rightarrow> real \<Rightarrow> pydict" where
  "response_data ee lat lon disaster_date disaster_type url_before url_after url_damage_map damage_percent =
     [(''status'', JStr (status damage_percent)),
      (''damage_percent'', JNum damage_percent),
      (''image_url_before'', JStr url_before),
      (''image_url_after'', JStr url_after),
      (''image_url_damage_map'', JStr url_damage_map),
      (''location_processed'', JStr (''Lat: '' @ str_float ee lat @ '', Lon: '' @ str_float ee lon)),
      (''date_processed'', JStr disaster_date),
      (''type_processed'', JStr disaster_type)]"

definition risk_context :: "real \<Rightarrow> real \<Rightarrow> string \<Rightarrow> string" where
  "risk_context lat lon disaster_type =
     (if disaster_type = ''flood'' \<or> disaster_type = ''hurricane'' then
        (if (lat > 29 \<and> lat < 31) \<and> (lon > - 91 \<and> lon < - 89)
         then ''ALERT! This property is in a High-Risk Flood/Storm Surge Zone designated by FEMA (e.g., Zone AE).''
         else ''Property is outside of known high-risk flood zones.'')
      else if disaster_type = ''earthquake'' then
        (if (lat > 33 \<and> lat < 35) \<and> (lon > - 119 \<and> lon < - 117)
         then ''ALERT! This property is in a High-Risk Seismic Zone (e.g., near San Andreas Fault).''
         else ''Property is outside of known high-risk seismic zones.'')
      else if disaster_type = ''fire'' then
        ''Wildfire risk context for this area is under analysis.''
      else ''Risk context analysis not applicable for this type of disaster.'')"

text \<open>Creating a dict object, and \<open>d[k] = v\<close> on the object at an address.\<close>

definition new_dict :: "pydict \<Rightarrow> app_state \<Rightarrow> nat \<times> app_state" where
  "new_dict d s = (length (heap s), s\<lparr>heap := heap s @ [d]\<rparr>)"

definition setitem :: "nat \<Rightarrow> string \<Rightarrow> jval \<Rightarrow> app_state \<Rightarrow> app_state" where
  "setitem a k v s = s\<lparr>heap := (heap s)[a := AList.update k v (heap s ! a)]\<rparr>"

text \<open>\<open>cache.set(key, obj, timeout=3600)\<close> stores the value the object has now.\<close>

definition cache_set :: "string \<Rightarrow> nat \<Rightarrow> app_state \<Rightarrow> app_state" where
  "cache_set key a s = s\<lparr>cache := (cache s)(key \<mapsto> heap s ! a)\<rparr>"

text \<open>
  The three steps on the report between the analysis and the reply: the dict is built,
  the risk context is stored into it, it is put in the cache.
\<close>

definition build_report ::
  "provider \<Rightarrow> real \<Rightarrow> real \<Rightarrow> string \<Rightarrow> string \<Rightarrow> string \<times> string \<times> string \<times> real \<Rightarrow> app_state
     \<Rightarrow> nat \<times> app_state" where
  "build_report ee lat lon disaster_date disaster_type r s =
     (case r of (url_before, url_after, url_damage_map, damage_percent) \<Rightarrow>
        new_dict (response_data ee lat lon disaster_date disaster_type
                    url_before url_after url_damage_map damage_percent) s)"

definition annotate_risk :: "real \<Rightarrow> real \<Rightarrow> string \<Rightarrow> nat \<Rightarrow> app_state \<Rightarrow> app_state" where
  "annotate_risk lat lon disaster_type a s =
     setitem a ''risk_context'' (JStr (risk_context lat lon disaster_type)) s"

definition analyze_damage_endpoint :: "provider \<Rightarrow> request \<Rightarrow> app_state \<Rightarrow> outcome \<times> app_state" where
  "analyze_damage_endpoint ee req s =
     (case lat_field req of
        None \<Rightarrow> (Raised TypeError, s)
      | Some lat \<Rightarrow>
     (case lon_field req of
        None \<Rightarrow> (Raised TypeError, s)
      | Some lon \<Rightarrow>
     (let disaster_date = disaster_date_field req;
          disaster_type = disaster_type_field req
      in
      if \<not> all_present lat lon disaster_date disaster_type
      then (Json [(''error'', JStr missing_message)] 400, s)
      else
        (let key = cache_key ee lat lon (the disaster_date) (the disaster_type);
             cached_response = cache s key
         in
         if cached_response \<noteq> None \<and> the cached_response \<noteq> []
         then (Json (the cached_response) 200, s)
         else
           (case get_satellite_imagery ee lat lon (the disaster_date) (the disaster_type) of
              Inl e \<Rightarrow>
                (Json [(''error'', JStr (''Error in the analysis: '' @ str_error e))] 500, s)
            | Inr r \<Rightarrow>
                (let (a, s1) = build_report ee lat lon (the disaster_date) (the disaster_type) r s;
                     s2 = annotate_risk lat lon (the disaster_type) a s1;
                     s3 = cache_set key a s2
                 in (Json (heap s3 ! a) 200, s3)))))))"

subsection \<open>A provider with fixed answers\<close>

text \<open>
  Five scenes around an event at time 100, with windows of 30 time units: the scene at
  95 is too cloudy, and in each window the scene nearest to the event is not the
  clearest one. The provider answers every area reduction with \<open>masked\<close>.
\<close>

definition demo_scenes :: "scene list" where
  "demo_scenes =
     [\<lparr>scene_id = 1, time_start = 80, cloudy_pixel_percentage = 2\<rparr>,
      \<lparr>scene_id = 2, time_start = 90, cloudy_pixel_percentage = 10\<rparr>,
      \<lparr>scene_id = 3, time_start = 95, cloudy_pixel_percentage = 50\<rparr>,
      \<lparr>scene_id = 4, time_start = 100, cloudy_pixel_percentage = 12\<rparr>,
      \<lparr>scene_id = 5, time_start = 120, cloudy_pixel_percentage = 1\<rparr>]"

definition demo_provider :: "scene list \<Rightarrow> real option \<Rightarrow> provider" where
  "demo_provider scenes masked =
     \<lparr>ImageCollection = (\<lambda>_. scenes),
      intersects_bounds = (\<lambda>_ _. True),
      ee_Date = (\<lambda>_. 100),
      advance = (\<lambda>d n _. d + 30 * n),
      reduceRegion_sum_get = (\<lambda>_ _ _ _ _. masked),
      geometry_area = (\<lambda>_. 3125000),
      getThumbUrl = (\<lambda>_ _. ''thumb''),
      str_float = (\<lambda>_. ''0.0'')\<rparr>"

definition demo_request :: "real \<Rightarrow> real \<Rightarrow> string \<Rightarrow> request" where
  "demo_request lat lon disaster_type =
     \<lparr>lat_field = Some lat, lon_field = Some lon,
      disaster_date_field = Some ''2024-01-10'', disaster_type_field = Some disaster_type\<rparr>"

definition empty_state :: app_state where
  "empty_state = \<lparr>cache = Map.empty, heap = []\<rparr>"

section \<open>Properties\<close>

subsection \<open>Running the program on the fixed provider\<close>

lemma demo_provider_sel:
  "ImageCollection (demo_provider sc m) = (\<lambda>_. sc)"
  "intersects_bounds (demo_provider sc m) = (\<lambda>_ _. True)"
  "ee_Date (demo_provider sc m) = (\<lambda>_. 100)"
  "advance (demo_provider sc m) = (\<lambda>d n _. d + 30 * n)"
  "reduceRegion_sum_get (demo_provider sc m) = (\<lambda>_ _ _ _ _. m)"
  "geometry_area (demo_provider sc m) = (\<lambda>_. 3125000)"
  "getThumbUrl (demo_provider sc m) = (\<lambda>_ _. ''thumb'')"
  "str_float (demo_provider sc m) = (\<lambda>_. ''0.0'')"
  by (simp_all add: demo_provider_def)

lemmas selection_defs = collection_before_def collection_after_def collection_def filterDate_def
  filter_lt_cloudy_def filterBounds_def date_before_start_def date_after_end_def
  date_disaster_start_def

lemmas analysis_defs = analysis_branch_def analyze_fire_damage_def analyze_flood_damage_def
  analyze_landslide_damage_def burned_meters_def flooded_meters_def slide_meters_def

lemma demo_before:
  "collection_before (demo_provider demo_scenes m) 10 20 ''2024-01-10'' =
     [\<lparr>scene_id = 1, time_start = 80, cloudy_pixel_percentage = 2\<rparr>,
      \<lparr>scene_id = 2, time_start = 90, cloudy_pixel_percentage = 10\<rparr>]"
  by (simp add: selection_defs demo_provider_sel demo_scenes_def)

lemma demo_after:
  "collection_after (demo_provider demo_scenes m) 10 20 ''2024-01-10'' =
     [\<lparr>scene_id = 4, time_start = 100, cloudy_pixel_percentage = 12\<rparr>,
      \<lparr>scene_id = 5, time_start = 120, cloudy_pixel_percentage = 1\<rparr>]"
  by (simp add: selection_defs demo_provider_sel demo_scenes_def)



subsection \<open>Severity classification\<close>

text \<open>
  C1. The label is a function of \<open>damage_percent\<close> alone, tested in the order severe,
  considerable, no significant damage, with light damage as the default: above 70 the
  approved label, in (30, 70] the flagged label, below 5 the no-significant-damage
  label, in [5, 30] the light-damage label; and this label is the \<open>status\<close> entry of
  the response.
\<close>

theorem status_classification:
  "(70 < x \<longrightarrow> status x = ''AUTOMATICALLY APPROVED (Severe Damage)'')
   \<and> (30 < x \<and> x \<le> 70 \<longrightarrow> status x = ''FLAGGED FOR REVIEW (Considerable Damage)'')
   \<and> (x < 5 \<longrightarrow> status x = ''No Significant Damage Detected'')
   \<and> (5 \<le> x \<and> x \<le> 30 \<longrightarrow> status x = ''Light Damage Detected'')
   \<and> map_of (response_data ee lat lon d t ub ua um x) ''status'' = Some (JStr (status x))"
  by (simp add: status_def response_data_def)

theorem status_classification_witness:
  "status 80 = ''AUTOMATICALLY APPROVED (Severe Damage)''
   \<and> status 50 = ''FLAGGED FOR REVIEW (Considerable Damage)''
   \<and> status 3 = ''No Significant Damage Detected''
   \<and> status 15 = ''Light Damage Detected''
   \<and> status 70 = ''FLAGGED FOR REVIEW (Considerable Damage)''
   \<and> status 5 = ''Light Damage Detected''"
  using status_classification [of 80] status_classification [of 50]
    status_classification [of 3] status_classification [of 15]
    status_classification [of 70] status_classification [of 5]
  by simp

subsection \<open>Damage percentage\<close>

lemma demo_run_flood:
  "get_satellite_imagery (demo_provider demo_scenes (Some 1562500)) 10 20 ''2024-01-10'' ''flood''
     = Inr (''thumb'', ''thumb'', ''thumb'', 50)"
  by (simp add: get_satellite_imagery_def demo_before demo_after analysis_defs py_round_def
      round_half_even_def Let_def demo_provider_sel)

lemma demo_run_fire:
  "get_satellite_imagery (demo_provider demo_scenes (Some 1562500)) 10 20 ''2024-01-10'' ''fire''
     = Inr (''thumb'', ''thumb'', ''thumb'', 50)"
  by (simp add: get_satellite_imagery_def demo_before demo_after analysis_defs py_round_def
      round_half_even_def Let_def demo_provider_sel)








subsection \<open>Dispatch on the disaster type\<close>

text \<open>
  C4. With the same images and area of interest, \<open>hurricane\<close> gives what \<open>flood\<close>
  gives: the same mask (\<open>flooded_area\<close>, through \<open>flooded_meters\<close>), the same change
  raster (\<open>ndwi_after\<close>) drawn the same way, the same damage percentage, and so the
  same result of \<open>get_satellite_imagery\<close>.
\<close>

theorem hurricane_is_flood:
  "analysis_branch ee ''hurricane'' b a g = analysis_branch ee ''flood'' b a g
   \<and> get_satellite_imagery ee lat lon d ''hurricane'' = get_satellite_imagery ee lat lon d ''flood''
   \<and> analysis_branch ee ''hurricane'' b a g =
       (case flooded_meters ee b a g of
          None \<Rightarrow> Inr (0, ndwi_after a, vis_flood)
        | Some m \<Rightarrow> if geometry_area ee g = 0 then Inl ZeroDivisionError
                    else Inr (py_round (m / geometry_area ee g * 100) 2, ndwi_after a, vis_flood))
   \<and> flooded_meters ee b a g =
       reduceRegion_sum_get ee (Multiply (flooded_area b a) PixelArea) g 30 (10 ^ 9) ''flooded_area''"
  by (simp add: analysis_branch_def get_satellite_imagery_def analyze_flood_damage_def
      flooded_meters_def Let_def split: option.splits)

theorem hurricane_is_flood_witness:
  "get_satellite_imagery (demo_provider demo_scenes (Some 1562500)) 10 20 ''2024-01-10'' ''hurricane''
     = Inr (''thumb'', ''thumb'', ''thumb'', 50)
   \<and> get_satellite_imagery (demo_provider demo_scenes (Some 1562500)) 10 20 ''2024-01-10'' ''flood''
     = Inr (''thumb'', ''thumb'', ''thumb'', 50)"
  using hurricane_is_flood [of "demo_provider demo_scenes (Some 1562500)" _ _ _ 10 20 "''2024-01-10''"]
    demo_run_flood
  by simp

text \<open>
  C5 (as amended). For a disaster type outside fire, flood, hurricane and earthquake,
  \<open>get_satellite_imagery\<close> never returns a result. The imagery check comes first:
  when one of the two collections is empty the failure is the no-imagery exception;
  otherwise it is the exception whose message names the type and the four allowed ones.
\<close>

theorem unsupported_type_fails:
  "t \<notin> {''fire'', ''flood'', ''hurricane'', ''earthquake''} \<Longrightarrow>
     get_satellite_imagery ee lat lon d t =
       (if collection_before ee lat lon d = [] \<or> collection_after ee lat lon d = []
        then Inl (Exception no_images_message)
        else Inl (Exception (''Disaster type '' @ [CHR 0x27] @ t @ [CHR 0x27] @
          '' is not supported. Use 'fire', 'flood', 'hurricane', or 'earthquake'.'')))
     \<and> (\<forall>r. get_satellite_imagery ee lat lon d t \<noteq> Inr r)"
  by (simp add: get_satellite_imagery_def analysis_branch_def unsupported_message_def)

theorem unsupported_type_fails_witness:
  "''tsunami'' \<notin> {''fire'', ''flood'', ''hurricane'', ''earthquake''}
   \<and> get_satellite_imagery (demo_provider demo_scenes (Some 1)) 10 20 ''2024-01-10'' ''tsunami''
       = Inl (Exception ''Disaster type 'tsunami' is not supported. Use 'fire', 'flood', 'hurricane', or 'earthquake'.'')"
proof -
  have h: "''tsunami'' \<notin> {''fire'', ''flood'', ''hurricane'', ''earthquake''}" by simp
  show ?thesis
    using unsupported_type_fails [OF h, of "demo_provider demo_scenes (Some 1)" 10 20 "''2024-01-10''"]
    by (simp add: demo_before demo_after)
qed

text \<open>
  The claim as written fails where no imagery is eligible: the exception raised for
  \<open>tsunami\<close> is then the no-imagery one, not the one that names the allowed types.
\<close>

theorem unsupported_type_counterexample:
  "''tsunami'' \<notin> {''fire'', ''flood'', ''hurricane'', ''earthquake''}
   \<and> get_satellite_imagery (demo_provider [] None) 10 20 ''2024-01-10'' ''tsunami''
       = Inl (Exception no_images_message)
   \<and> Exception no_images_message \<noteq> Exception (unsupported_message ''tsunami'')"
  by (simp add: get_satellite_imagery_def selection_defs demo_provider_sel
      no_images_message_def unsupported_message_def)

subsection \<open>Imagery selection\<close>

text \<open>
  C6. If the before collection or the after collection is empty, \<open>get_satellite_imagery\<close>
  raises the no-imagery exception, whatever the disaster type; the endpoint answers a
  request that reaches the analysis with status 500 and a body that carries the
  message, and leaves the server state as it was.
\<close>

theorem no_imagery_fails:
  assumes "collection_before ee lat lon d = [] \<or> collection_after ee lat lon d = []"
  shows "get_satellite_imagery ee lat lon d t = Inl (Exception no_images_message)
    \<and> (lat \<noteq> 0 \<and> lon \<noteq> 0 \<and> d \<noteq> [] \<and> t \<noteq> [] \<and> cache s (cache_key ee lat lon d t) = None \<longrightarrow>
         analyze_damage_endpoint ee
           \<lparr>lat_field = Some lat, lon_field = Some lon, disaster_date_field = Some d,
            disaster_type_field = Some t\<rparr> s
         = (Json [(''error'', JStr (''Error in the analysis: '' @ no_images_message))] 500, s))"
  using assms
  by (auto simp add: get_satellite_imagery_def analyze_damage_endpoint_def all_present_def
      truthy_str_def str_error_def Let_def)

theorem no_imagery_fails_witness:
  "get_satellite_imagery (demo_provider [] (Some 1)) 10 20 ''2024-01-10'' ''fire''
     = Inl (Exception no_images_message)
   \<and> analyze_damage_endpoint (demo_provider [] (Some 1)) (demo_request 10 20 ''fire'') empty_state
     = (Json [(''error'', JStr (''Error in the analysis: '' @ no_images_message))] 500, empty_state)"
proof -
  have h: "collection_before (demo_provider [] (Some 1)) 10 20 ''2024-01-10'' = []
     \<or> collection_after (demo_provider [] (Some 1)) 10 20 ''2024-01-10'' = []"
    by (simp add: selection_defs demo_provider_sel)
  show ?thesis
    using no_imagery_fails [OF h, of "''fire''" empty_state]
    by (simp add: demo_request_def empty_state_def)
qed











subsection \<open>The report and the request check\<close>

lemma update_response_data:
  "AList.update ''risk_context'' v (response_data ee lat lon d t ub ua um dp)
     = response_data ee lat lon d t ub ua um dp @ [(''risk_context'', v)]"
  by (simp add: response_data_def)

lemma report_steps:
  "build_report ee lat lon d t (ub, ua, um, dp) s
     = (length (heap s), s\<lparr>heap := heap s @ [response_data ee lat lon d t ub ua um dp]\<rparr>)"
  "annotate_risk lat lon t (length (heap s))
       (s\<lparr>heap := heap s @ [response_data ee lat lon d t ub ua um dp]\<rparr>)
     = s\<lparr>heap := heap s @ [response_data ee lat lon d t ub ua um dp
                              @ [(''risk_context'', JStr (risk_context lat lon t))]]\<rparr>"
  by (simp_all add: build_report_def new_dict_def annotate_risk_def setitem_def
      update_response_data)

lemma endpoint_success:
  assumes "lat_field req = Some lat" "lon_field req = Some lon"
    "disaster_date_field req = Some d" "disaster_type_field req = Some t"
    "lat \<noteq> 0" "lon \<noteq> 0" "d \<noteq> []" "t \<noteq> []"
    "cache s (cache_key ee lat lon d t) = None"
    "get_satellite_imagery ee lat lon d t = Inr (ub, ua, um, dp)"
  shows "analyze_damage_endpoint ee req s =
    (Json (response_data ee lat lon d t ub ua um dp
             @ [(''risk_context'', JStr (risk_context lat lon t))]) 200,
     s\<lparr>heap := heap s @ [response_data ee lat lon d t ub ua um dp
                            @ [(''risk_context'', JStr (risk_context lat lon t))]],
       cache := (cache s)(cache_key ee lat lon d t \<mapsto>
                   response_data ee lat lon d t ub ua um dp
                     @ [(''risk_context'', JStr (risk_context lat lon t))])\<rparr>)"
  using assms
  by (simp add: analyze_damage_endpoint_def all_present_def truthy_str_def Let_def
      report_steps cache_set_def)

lemma demo_endpoint_fire:
  "analyze_damage_endpoint (demo_provider demo_scenes (Some 1562500))
     (demo_request 10 20 ''fire'') empty_state =
   (Json (response_data (demo_provider demo_scenes (Some 1562500)) 10 20 ''2024-01-10'' ''fire''
            ''thumb'' ''thumb'' ''thumb'' 50
          @ [(''risk_context'', JStr (risk_context 10 20 ''fire''))]) 200,
    empty_state\<lparr>heap := heap empty_state
        @ [response_data (demo_provider demo_scenes (Some 1562500)) 10 20 ''2024-01-10'' ''fire''
             ''thumb'' ''thumb'' ''thumb'' 50
           @ [(''risk_context'', JStr (risk_context 10 20 ''fire''))]],
      cache := (cache empty_state)
        (cache_key (demo_provider demo_scenes (Some 1562500)) 10 20 ''2024-01-10'' ''fire'' \<mapsto>
           response_data (demo_provider demo_scenes (Some 1562500)) 10 20 ''2024-01-10'' ''fire''
             ''thumb'' ''thumb'' ''thumb'' 50
           @ [(''risk_context'', JStr (risk_context 10 20 ''fire''))])\<rparr>)"
  by (rule endpoint_success [OF _ _ _ _ _ _ _ _ _ demo_run_fire])
    (simp_all add: demo_request_def empty_state_def)

text \<open>
  C9 (as amended). A request creates at most one report object, and only when the
  analysis has run and succeeded. That object is then changed in place, once: the risk
  context is stored into it under the new key \<open>risk_context\<close>, after its eight
  entries, which keep their values. There is no copy: the object with the risk context
  is what is sent, and its value is what the cache stores. Every other request leaves
  the objects as they were.
\<close>

theorem report_built_once_annotated_in_place:
  assumes "analyze_damage_endpoint ee req s = (out, s')"
  shows "heap s' = heap s
    \<or> (\<exists>lat lon d t ub ua um dp.
          lat_field req = Some lat \<and> lon_field req = Some lon
          \<and> disaster_date_field req = Some d \<and> disaster_type_field req = Some t
          \<and> get_satellite_imagery ee lat lon d t = Inr (ub, ua, um, dp)
          \<and> heap s' = heap s @ [response_data ee lat lon d t ub ua um dp
                                   @ [(''risk_context'', JStr (risk_context lat lon t))]]
          \<and> out = Json (response_data ee lat lon d t ub ua um dp
                          @ [(''risk_context'', JStr (risk_context lat lon t))]) 200
          \<and> cache s' = (cache s)(cache_key ee lat lon d t \<mapsto>
                           response_data ee lat lon d t ub ua um dp
                             @ [(''risk_context'', JStr (risk_context lat lon t))]))"
proof (cases "heap s' = heap s")
  case True
  then show ?thesis by simp
next
  case False
  from assms False obtain lat lon where ll: "lat_field req = Some lat" "lon_field req = Some lon"
    by (auto simp add: analyze_damage_endpoint_def split: option.splits)
  from assms False ll
  have ap: "all_present lat lon (disaster_date_field req) (disaster_type_field req)"
    by (auto simp add: analyze_damage_endpoint_def Let_def split: if_splits)
  then obtain d t where dt: "disaster_date_field req = Some d" "disaster_type_field req = Some t"
    by (auto simp add: all_present_def truthy_str_def split: option.splits)
  from assms False ll ap dt obtain ub ua um dp where
    r: "get_satellite_imagery ee lat lon d t = Inr (ub, ua, um, dp)"
    by (auto simp add: analyze_damage_endpoint_def Let_def split: if_splits sum.splits)
  from assms False ll ap dt r have
    "s' = s\<lparr>heap := heap s @ [response_data ee lat lon d t ub ua um dp
                              @ [(''risk_context'', JStr (risk_context lat lon t))]],
            cache := (cache s)(cache_key ee lat lon d t \<mapsto>
                           response_data ee lat lon d t ub ua um dp
                             @ [(''risk_context'', JStr (risk_context lat lon t))])\<rparr>
     \<and> out = Json (response_data ee lat lon d t ub ua um dp
                          @ [(''risk_context'', JStr (risk_context lat lon t))]) 200"
    by (auto simp add: analyze_damage_endpoint_def Let_def report_steps cache_set_def
        split: if_splits)
  with ll dt r show ?thesis by auto
qed

theorem report_built_once_annotated_in_place_witness:
  "heap (snd (analyze_damage_endpoint (demo_provider demo_scenes (Some 1562500))
          (demo_request 10 20 ''fire'') empty_state))
     = [response_data (demo_provider demo_scenes (Some 1562500)) 10 20 ''2024-01-10'' ''fire''
          ''thumb'' ''thumb'' ''thumb'' 50
        @ [(''risk_context'', JStr ''Wildfire risk context for this area is under analysis.'')]]"
proof -
  let ?p = "demo_provider demo_scenes (Some 1562500)"
  obtain out s' where e: "analyze_damage_endpoint ?p (demo_request 10 20 ''fire'') empty_state
      = (out, s')"
    by (cases "analyze_damage_endpoint ?p (demo_request 10 20 ''fire'') empty_state") simp
  have ne: "heap s' \<noteq> heap empty_state"
    using e by (auto simp add: demo_endpoint_fire)
  from report_built_once_annotated_in_place [OF e] ne demo_run_fire
  have "heap s' = heap empty_state
      @ [response_data ?p 10 20 ''2024-01-10'' ''fire'' ''thumb'' ''thumb'' ''thumb'' 50
         @ [(''risk_context'', JStr (risk_context 10 20 ''fire''))]]"
    by (auto simp add: demo_request_def)
  then show ?thesis
    using e by (simp add: empty_state_def risk_context_def)
qed

text \<open>
  The claim as written fails: the one object that a request creates is built as the
  report of eight entries, and at the end of the request that same object holds a ninth
  entry, the risk context.
\<close>

theorem report_mutated_counterexample:
  "fst (build_report (demo_provider demo_scenes (Some 1562500)) 10 20 ''2024-01-10'' ''fire''
          (''thumb'', ''thumb'', ''thumb'', 50) empty_state) = 0
   \<and> heap (snd (build_report (demo_provider demo_scenes (Some 1562500)) 10 20 ''2024-01-10'' ''fire''
          (''thumb'', ''thumb'', ''thumb'', 50) empty_state)) ! 0
       = response_data (demo_provider demo_scenes (Some 1562500)) 10 20 ''2024-01-10'' ''fire''
           ''thumb'' ''thumb'' ''thumb'' 50
   \<and> length (heap (snd (analyze_damage_endpoint (demo_provider demo_scenes (Some 1562500))
          (demo_request 10 20 ''fire'') empty_state))) = 1
   \<and> heap (snd (analyze_damage_endpoint (demo_provider demo_scenes (Some 1562500))
          (demo_request 10 20 ''fire'') empty_state)) ! 0
       \<noteq> response_data (demo_provider demo_scenes (Some 1562500)) 10 20 ''2024-01-10'' ''fire''
           ''thumb'' ''thumb'' ''thumb'' 50
   \<and> map_of (heap (snd (analyze_damage_endpoint (demo_provider demo_scenes (Some 1562500))
          (demo_request 10 20 ''fire'') empty_state)) ! 0) ''risk_context''
       = Some (JStr ''Wildfire risk context for this area is under analysis.'')"
  by (simp add: demo_endpoint_fire report_steps(1) risk_context_def)
    (simp add: response_data_def empty_state_def)

text \<open>
  C10. The presence check is a truthiness check on the parsed values: a request that
  carries all four fields but has \<open>lat\<close> or \<open>lon\<close> equal to 0.0 gets the
  missing-parameter reply with status 400, whatever the provider would answer, and
  leaves the server state as it was.
\<close>

theorem zero_coordinate_rejected:
  assumes "lat_field req = Some lat" "lon_field req = Some lon"
    "disaster_date_field req = Some d" "disaster_type_field req = Some t"
    "lat = 0 \<or> lon = 0"
  shows "analyze_damage_endpoint ee req s = (Json [(''error'', JStr missing_message)] 400, s)"
  using assms by (auto simp add: analyze_damage_endpoint_def all_present_def Let_def)

theorem zero_coordinate_rejected_witness:
  "analyze_damage_endpoint (demo_provider demo_scenes (Some 1562500))
       (demo_request 0 20 ''fire'') empty_state
     = (Json [(''error'', JStr missing_message)] 400, empty_state)
   \<and> analyze_damage_endpoint (demo_provider demo_scenes (Some 1562500))
       (demo_request 10 0 ''fire'') empty_state
     = (Json [(''error'', JStr missing_message)] 400, empty_state)"
  using zero_coordinate_rejected [of "demo_request 0 20 ''fire''" 0 20 "''2024-01-10''" "''fire''"
      "demo_provider demo_scenes (Some 1562500)" empty_state]
    zero_coordinate_rejected [of "demo_request 10 0 ''fire''" 10 0 "''2024-01-10''" "''fire''"
      "demo_provider demo_scenes (Some 1562500)" empty_state]
  by (simp add: demo_request_def)

end
